theory Spec2Isabelle
  imports Main "HOL-Library.AList"
begin

section \<open>Python values used by \<open>tools/spreadsheet_extractor.py\<close>\<close>

text \<open>
  A Python \<open>str\<close> is a sequence of Unicode code points, so it is modelled as a list of
  naturals (an Isabelle \<open>char\<close> is only a byte and could not hold U+00A0 or U+3000 as
  one character). \<open>bytes\<close> is a list of bytes, for which Isabelle's \<open>char list\<close> is
  exactly right. \<open>S\<close> writes an ASCII literal as a Python string.
\<close>

type_synonym pystr = "nat list"
type_synonym bytes = "char list"

definition S :: "string \<Rightarrow> pystr" where
  "S s = map of_char s"

text \<open>
  \<open>str.isspace\<close> for one code point. CPython's \<open>Py_UNICODE_ISSPACE\<close> is true for exactly
  these code points; the \<open>\s\<close> class of \<open>re\<close> on a \<open>str\<close> pattern and the argument-free
  \<open>str.strip()\<close> both use it.
\<close>

definition isspace :: "nat \<Rightarrow> bool" where
  "isspace c \<longleftrightarrow>
     (9 \<le> c \<and> c \<le> 13) \<or> (28 \<le> c \<and> c \<le> 32) \<or> c = 133 \<or> c = 160 \<or> c = 5760 \<or>
     (8192 \<le> c \<and> c \<le> 8202) \<or> c = 8232 \<or> c = 8233 \<or> c = 8239 \<or> c = 8287 \<or>
     c = 12288"

text \<open>The two character classes of the source, as written there.\<close>

definition ws_class_input :: "nat \<Rightarrow> bool" where
  \<comment> \<open>the class \<^verbatim>\<open>[\s\u00A0]\<close> of \<open>handler_input\<close>\<close>
  "ws_class_input c \<longleftrightarrow> isspace c \<or> c = 160"

definition ws_class_column :: "nat \<Rightarrow> bool" where
  \<comment> \<open>the class \<^verbatim>\<open>[\s\u00A0\u3000\r\n\t]\<close> of \<open>clean_column_name\<close>\<close>
  "ws_class_column c \<longleftrightarrow> isspace c \<or> c = 160 \<or> c = 12288 \<or> c = 13 \<or> c = 10 \<or> c = 9"

text \<open>
  \<open>re.sub(r'[...]+', ' ', s)\<close>: scanning from the left, every maximal run of characters
  of the class is one (greedy) match and is replaced by one ASCII space (code point 32);
  every other character is copied.
\<close>

function re_sub_runs :: "(nat \<Rightarrow> bool) \<Rightarrow> pystr \<Rightarrow> pystr" where
  "re_sub_runs cls [] = []"
| "re_sub_runs cls (c # cs) =
     (if cls c then 32 # re_sub_runs cls (dropWhile cls cs)
      else c # re_sub_runs cls cs)"
  by pat_completeness auto
termination
  by (relation "measure (\<lambda>(cls, s). length s)")
     (auto simp: length_dropWhile_le less_Suc_eq_le)

text \<open>\<open>s.strip()\<close>: leading and trailing whitespace removed.\<close>

definition lstrip :: "pystr \<Rightarrow> pystr" where
  "lstrip s = dropWhile isspace s"

definition rstrip :: "pystr \<Rightarrow> pystr" where
  "rstrip s = rev (dropWhile isspace (rev s))"

definition strip :: "pystr \<Rightarrow> pystr" where
  "strip s = rstrip (lstrip s)"

text \<open>
  A column label of a frame. \<open>clean_column_name\<close> asks \<open>isinstance(name, str)\<close>; a label
  that is not a \<open>str\<close> is carried as its \<open>str(name)\<close> rendering, the only thing the
  source reads of it.
\<close>

datatype label = StrLabel pystr | ObjLabel pystr

fun clean_column_name :: "label \<Rightarrow> pystr" where
  "clean_column_name (ObjLabel rendered) = strip rendered"
| "clean_column_name (StrLabel name) = strip (re_sub_runs ws_class_column name)"

text \<open>
  A Python \<open>dict\<close> keeps its keys unique and in insertion order: it is an association
  list, and \<open>d[k] = v\<close> is \<open>AList.update k v d\<close> (overwrite in place, or append).
  \<open>dict(pairs)\<close> stores the pairs one after the other.
\<close>

type_synonym ('k, 'v) pydict = "('k \<times> 'v) list"

definition keys :: "('k, 'v) pydict \<Rightarrow> 'k list" where
  "keys d = map fst d"

definition dict_of :: "('k \<times> 'v) list \<Rightarrow> ('k, 'v) pydict" where
  "dict_of pairs = foldl (\<lambda>d (k, v). AList.update k v d) [] pairs"

text \<open>What \<open>json.loads\<close> returns. A float is carried as its literal; the source never
  looks inside one.\<close>

datatype json =
    JNull | JBool bool | JInt int | JFloat pystr | JStr pystr
  | JList "json list" | JDict "(pystr \<times> json) list"

subsection \<open>Exceptions\<close>

text \<open>
  An exception is its class and its message. The classes are the ones the source raises
  or names in an \<open>except\<close> clause; \<open>OtherException\<close> is any other subclass of
  \<open>Exception\<close> a library may raise (for instance \<open>pandas.errors.EmptyDataError\<close>).
  A message is kept as the f-string that builds it, one constructor per f-string of the
  source, with \<open>str(e)\<close> of a wrapped exception as a sub-message; \<open>Text\<close> is a message
  written by a library.
\<close>

datatype encoding = UTF_8 | GBK

datatype exn_class =
    ValueError | RuntimeError | TypeError | KeyError | AttributeError
  | UnicodeDecodeError | ParserError | JSONDecodeError | OtherException pystr

datatype msg =
    Text pystr
  | Empty_table_fields_input
  | Input_must_be_a_JSON_object
  | Invalid_field pystr
  | Invalid_alias_for pystr json
  | Invalid_JSON_format msg
  | Failed_to_parse_table_fields msg
  | Failed_to_decode_CSV_with_encodings "encoding list"
  | Unsupported_file_format pystr
  | Failed_to_parse_file msg
  | Missing_columns_in_file "pystr set" "pystr list"
  | Invalid_file_format_expected_File
  | Module_has_no_attribute string string
  | Key_repr string
  | Expected_string_or_bytes

datatype exn = Exn (exn_class: exn_class) (exn_msg: msg)

subsection \<open>Frames\<close>

text \<open>
  A cell of a pandas frame read with \<open>dtype=str\<close>: a string, the missing-value marker
  \<open>NaN\<close>, or Python's \<open>None\<close>. A \<open>DataFrame\<close> is its index (here its length, the number
  of rows) and its labelled columns, each an array with one cell per row. Labels need not
  be distinct.
\<close>

datatype cell = Str pystr | NaN | PyNone

record 'l frame =
  index_len :: nat
  columns :: "('l \<times> cell list) list"

definition labels :: "'l frame \<Rightarrow> 'l list" where
  \<comment> \<open>\<open>df.columns.tolist()\<close>\<close>
  "labels df = map fst (columns df)"


subsection \<open>The libraries the source calls\<close>

text \<open>
  \<open>json.loads\<close>, \<open>bytes.decode\<close> and \<open>pandas.read_csv(io.StringIO(text), dtype=str)\<close> are
  not code of this repository: they are parameters, and every theorem below holds for
  whatever they compute. Each returns a value or raises; what a library raises is a
  class and a message text of the library's own.

  Three more parameters are behaviour that differs between versions of Python's Unicode
  tables or of pandas, none of which the repository pins:
  \<^item> \<open>lower_beyond_ascii\<close>: \<open>s.lower()\<close> of a string that has a character outside ASCII;
  \<^item> \<open>none_written\<close>: the cell a frame holds where \<open>df.where(cond, None)\<close> has written
    \<open>None\<close> (\<open>None\<close> itself on pandas 2.x, whose \<open>dtype=str\<close> columns are object columns;
    \<open>NaN\<close> on pandas 3.x, whose string columns turn \<open>None\<close> into their missing value);
  \<^item> \<open>records_of_no_columns\<close>: \<open>to_dict(orient='records')\<close> of a frame with that many
    rows and no column (no record on pandas 2.x, one empty record per row on 3.x).
\<close>

type_synonym lib_error = "exn_class \<times> pystr"

definition raised :: "lib_error \<Rightarrow> exn" where
  "raised le = Exn (fst le) (Text (snd le))"

record library =
  json_loads :: "pystr \<Rightarrow> lib_error + json"
  bytes_decode :: "encoding \<Rightarrow> bytes \<Rightarrow> lib_error + pystr"
  read_csv :: "pystr \<Rightarrow> lib_error + label frame"
  lower_beyond_ascii :: "pystr \<Rightarrow> pystr"
  none_written :: cell
  records_of_no_columns :: "nat \<Rightarrow> (pystr, cell) pydict list"

text \<open>
  \<open>s.lower()\<close>: on a string of ASCII characters the capitals go to their small letters
  and nothing else changes; any other string is lowered by the library.
\<close>

definition ascii_lower :: "nat \<Rightarrow> nat" where
  "ascii_lower c = (if 65 \<le> c \<and> c \<le> 90 then c + 32 else c)"

definition lower :: "library \<Rightarrow> pystr \<Rightarrow> pystr" where
  "lower lib s =
     (if list_all (\<lambda>c. c < 128) s then map ascii_lower s else lower_beyond_ascii lib s)"

text \<open>
  Line 74 calls \<open>pd.read_spreadsheet\<close>. The module \<open>pandas\<close> has no attribute of that
  name (its reader of Excel files is \<open>read_excel\<close>), so evaluating the attribute raises
  \<open>AttributeError\<close> before any argument is looked at.
\<close>

definition pd_read_spreadsheet :: "bytes \<Rightarrow> exn + label frame" where
  "pd_read_spreadsheet content =
     Inl (Exn AttributeError (Module_has_no_attribute ''pandas'' ''read_spreadsheet''))"

section \<open>\<open>handler_input\<close>: the field mapping\<close>

text \<open>
  The \<open>for\<close> loop over \<open>field_mapping.items()\<close>. The keys of a parsed JSON object are
  strings, so \<open>not isinstance(field, str)\<close> is never true.
\<close>

fun mapping_loop ::
  "(pystr \<times> json) list \<Rightarrow> (pystr, pystr) pydict \<Rightarrow> exn + (pystr, pystr) pydict" where
  "mapping_loop [] result = Inr result"
| "mapping_loop ((field, alias) # items) result =
     (if strip field = [] then Inl (Exn ValueError (Invalid_field field))
      else case alias of
          JStr a \<Rightarrow>
            if strip a = [] then Inl (Exn ValueError (Invalid_alias_for field alias))
            else mapping_loop items (AList.update (strip field) (strip a) result)
        | _ \<Rightarrow> Inl (Exn ValueError (Invalid_alias_for field alias)))"

definition normalized_input :: "pystr \<Rightarrow> pystr" where
  \<comment> \<open>lines 19 and 20\<close>
  "normalized_input table_fields = strip (re_sub_runs ws_class_input table_fields)"

definition handler_input :: "library \<Rightarrow> pystr \<Rightarrow> exn + (pystr, pystr) pydict" where
  "handler_input lib table_fields =
     (let normalized = normalized_input table_fields in
      if table_fields = [] \<or> strip table_fields = []
      then Inl (Exn ValueError Empty_table_fields_input)
      else case json_loads lib normalized of
          Inl le \<Rightarrow>
            if exn_class (raised le) = JSONDecodeError
            then Inl (Exn ValueError (Invalid_JSON_format (exn_msg (raised le))))
            else Inl (Exn ValueError (Failed_to_parse_table_fields (exn_msg (raised le))))
        | Inr (JDict items) \<Rightarrow>
            (case mapping_loop items [] of
               Inl e \<Rightarrow> Inl (Exn ValueError (Failed_to_parse_table_fields (exn_msg e)))
             | Inr result \<Rightarrow> Inr result)
        | Inr _ \<Rightarrow>
            Inl (Exn ValueError (Failed_to_parse_table_fields Input_must_be_a_JSON_object)))"

section \<open>\<open>read_csv_with_encoding\<close>\<close>

definition caught_by_fallback :: "exn \<Rightarrow> bool" where
  \<comment> \<open>\<open>except (UnicodeDecodeError, pd.errors.ParserError)\<close>\<close>
  "caught_by_fallback e \<longleftrightarrow> exn_class e = UnicodeDecodeError \<or> exn_class e = ParserError"

fun csv_loop ::
  "library \<Rightarrow> bytes \<Rightarrow> encoding list \<Rightarrow> encoding list \<Rightarrow> exn + label frame" where
  "csv_loop lib content encodings [] =
     Inl (Exn RuntimeError (Failed_to_decode_CSV_with_encodings encodings))"
| "csv_loop lib content encodings (encoding # rest) =
     (case bytes_decode lib encoding content of
        Inl le \<Rightarrow>
          if caught_by_fallback (raised le) then csv_loop lib content encodings rest
          else Inl (raised le)
      | Inr text \<Rightarrow>
          (case read_csv lib text of
             Inl le \<Rightarrow>
               if caught_by_fallback (raised le) then csv_loop lib content encodings rest
               else Inl (raised le)
           | Inr df \<Rightarrow> Inr df))"

definition default_encodings :: "encoding list" where
  "default_encodings = [UTF_8, GBK]"

definition read_csv_with_encoding :: "library \<Rightarrow> bytes \<Rightarrow> encoding list \<Rightarrow> exn + label frame" where
  "read_csv_with_encoding lib content encodings = csv_loop lib content encodings encodings"

section \<open>\<open>read_table_file_to_objects\<close>\<close>

text \<open>
  A \<open>File\<close> of the host runtime, as far as the source reads it: \<open>file.extension\<close> and
  \<open>file.blob\<close>.
\<close>

record raw_file =
  extension :: pystr
  blob :: bytes

text \<open>
  Lines 67 to 78, the file decoder: the \<open>try\<close> block and its \<open>except Exception\<close>, which
  wraps whatever was raised inside the block, the \<open>ValueError\<close> of the \<open>else\<close>
  branch included.
\<close>

definition decode_file :: "library \<Rightarrow> raw_file \<Rightarrow> exn + label frame" where
  "decode_file lib f =
     (let ext = lower lib (extension f); content = blob f in
      case (if ext = S ''.csv'' then read_csv_with_encoding lib content default_encodings
            else if ext \<in> {S ''.xlsx'', S ''.xls''} then pd_read_spreadsheet content
            else Inl (Exn ValueError (Unsupported_file_format ext))) of
        Inl e \<Rightarrow> Inl (Exn RuntimeError (Failed_to_parse_file (exn_msg e)))
      | Inr df \<Rightarrow> Inr df)"

text \<open>Lines 81 to 83, the column normalizer: \<open>df.columns = cleaned_columns\<close>.\<close>

definition normalize_columns :: "label frame \<Rightarrow> pystr frame" where
  "normalize_columns df =
     \<lparr>index_len = index_len df,
      columns = map (\<lambda>(name, array). (clean_column_name name, array)) (columns df)\<rparr>"

text \<open>
  The pandas operations of lines 90 to 93.
  \<open>df[list_of_labels]\<close> takes, for each requested label in turn, every column that carries
  it (a \<open>KeyError\<close> if there is none) and keeps the index.
  \<open>df.rename(columns=d)\<close> replaces each label that is a key of \<open>d\<close> by its value.
  \<open>df.where(pd.notnull(df), None)\<close> keeps a cell that is not missing and writes \<open>None\<close>
  in place of any other; what the frame then holds there is \<open>none_written\<close>.
  \<open>df.to_dict(orient='records')\<close> of a frame that has columns is
  \<open>dict(zip(labels, row))\<close> for each row, the rows being \<open>zip(*arrays)\<close> over the column
  arrays (Python's \<open>zip\<close> stops with the shortest argument, and is empty without
  arguments); of a frame without columns it is \<open>records_of_no_columns\<close>.
\<close>

definition getitem_list :: "pystr frame \<Rightarrow> pystr list \<Rightarrow> exn + pystr frame" where
  "getitem_list df wanted =
     (if \<exists>k \<in> set wanted. k \<notin> set (labels df)
      then Inl (Exn KeyError (Text (S ''not in index'')))
      else Inr \<lparr>index_len = index_len df,
                columns = concat (map (\<lambda>k. filter (\<lambda>col. fst col = k) (columns df)) wanted)\<rparr>)"

definition rename_columns :: "pystr frame \<Rightarrow> (pystr, pystr) pydict \<Rightarrow> pystr frame" where
  "rename_columns df d =
     \<lparr>index_len = index_len df,
      columns = map (\<lambda>(name, array).
                  (case map_of d name of Some alias \<Rightarrow> alias | None \<Rightarrow> name, array))
                (columns df)\<rparr>"

definition notnull :: "cell \<Rightarrow> bool" where
  "notnull c = (case c of Str s \<Rightarrow> True | NaN \<Rightarrow> False | PyNone \<Rightarrow> False)"

definition where_notnull_else_None :: "library \<Rightarrow> pystr frame \<Rightarrow> pystr frame" where
  "where_notnull_else_None lib df =
     \<lparr>index_len = index_len df,
      columns = map (\<lambda>(name, array).
                  (name, map (\<lambda>c. if notnull c then c else none_written lib) array))
                (columns df)\<rparr>"

definition zip_star :: "'a list list \<Rightarrow> 'a list list" where
  "zip_star arrays =
     (if arrays = [] then []
      else map (\<lambda>i. map (\<lambda>array. array ! i) arrays) [0 ..< min_list (map length arrays)])"

definition to_dict_records :: "library \<Rightarrow> pystr frame \<Rightarrow> (pystr, cell) pydict list" where
  "to_dict_records lib df =
     (if columns df = [] then records_of_no_columns lib (index_len df)
      else map (\<lambda>row. dict_of (zip (labels df) row)) (zip_star (map snd (columns df))))"

text \<open>Lines 86 to 93, the projector.\<close>

definition project ::
  "library \<Rightarrow> pystr frame \<Rightarrow> (pystr, pystr) pydict \<Rightarrow> exn + (pystr, cell) pydict list" where
  "project lib df field_mapping =
     (let missing_cols = set (keys field_mapping) - set (labels df) in
      if missing_cols \<noteq> {}
      then Inl (Exn ValueError (Missing_columns_in_file missing_cols (labels df)))
      else case getitem_list df (keys field_mapping) of
          Inl e \<Rightarrow> Inl e
        | Inr selected \<Rightarrow>
            Inr (to_dict_records lib
                  (where_notnull_else_None lib (rename_columns selected field_mapping))))"

text \<open>
  The argument \<open>file\<close> as the function receives it: a \<open>File\<close> or some other object
  (line 64 asks).
\<close>

datatype file_arg = A_File raw_file | Not_a_File

definition read_table_file_to_objects ::
  "library \<Rightarrow> file_arg \<Rightarrow> (pystr, pystr) pydict \<Rightarrow> exn + (pystr, cell) pydict list" where
  "read_table_file_to_objects lib file_obj field_mapping =
     (case file_obj of
        Not_a_File \<Rightarrow> Inl (Exn TypeError Invalid_file_format_expected_File)
      | A_File f \<Rightarrow>
          (case decode_file lib f of
             Inl e \<Rightarrow> Inl e
           | Inr df \<Rightarrow> project lib (normalize_columns df) field_mapping))"

section \<open>\<open>SpreadsheetExtractorTool._invoke\<close>\<close>

text \<open>
  \<open>tool_parameters\<close> is a dictionary of values of any type. The messages the generator
  yields are kept as what they are built from: \<open>create_json_message(output)\<close>, and
  \<open>create_text_message\<close> of either \<open>json.dumps(output, ensure_ascii=False)\<close> or
  \<open>f"Error: {str(e)}"\<close>. \<open>output\<close> is the object \<open>{"result": result}\<close>.
\<close>

datatype param = Str_param pystr | File_param raw_file | Other_param

datatype tool_output = Output (result: "(pystr, cell) pydict list")

datatype text_content = Json_dumps tool_output | Error_text msg

datatype tool_message = Json_message tool_output | Text_message text_content

definition lookup_param :: "(string \<rightharpoonup> param) \<Rightarrow> string \<Rightarrow> exn + param" where
  \<comment> \<open>\<open>tool_parameters[name]\<close>\<close>
  "lookup_param tool_parameters name =
     (case tool_parameters name of
        None \<Rightarrow> Inl (Exn KeyError (Key_repr name))
      | Some v \<Rightarrow> Inr v)"

definition handler_input_arg :: "library \<Rightarrow> param \<Rightarrow> exn + (pystr, pystr) pydict" where
  \<comment> \<open>\<open>handler_input\<close> on a value of any type: \<open>re.sub\<close> of line 19 raises \<open>TypeError\<close> on
      anything but a string\<close>
  "handler_input_arg lib v =
     (case v of
        Str_param table_fields \<Rightarrow> handler_input lib table_fields
      | _ \<Rightarrow> Inl (Exn TypeError Expected_string_or_bytes))"

definition file_arg_of :: "param \<Rightarrow> file_arg" where
  "file_arg_of v = (case v of File_param f \<Rightarrow> A_File f | _ \<Rightarrow> Not_a_File)"

definition run_pipeline ::
  "library \<Rightarrow> (string \<rightharpoonup> param) \<Rightarrow> exn + (pystr, cell) pydict list" where
  \<comment> \<open>lines 99 and 100, the two statements of the \<open>try\<close> block that can raise\<close>
  "run_pipeline lib tool_parameters =
     (case lookup_param tool_parameters ''table_fields'' of
        Inl e \<Rightarrow> Inl e
      | Inr v \<Rightarrow>
          (case handler_input_arg lib v of
             Inl e \<Rightarrow> Inl e
           | Inr field_mapping \<Rightarrow>
               (case lookup_param tool_parameters ''file'' of
                  Inl e \<Rightarrow> Inl e
                | Inr fv \<Rightarrow> read_table_file_to_objects lib (file_arg_of fv) field_mapping)))"

definition invoke :: "library \<Rightarrow> (string \<rightharpoonup> param) \<Rightarrow> tool_message list" where
  "invoke lib tool_parameters =
     (case run_pipeline lib tool_parameters of
        Inr res \<Rightarrow> [Json_message (Output res), Text_message (Json_dumps (Output res))]
      | Inl e \<Rightarrow> [Text_message (Error_text (exn_msg e))])"

section \<open>Notions the properties are stated with\<close>

text \<open>
  \<open>s.split()\<close>, the maximal runs of non-whitespace characters of a string in order, and
  \<open>' '.join(words)\<close>. "Every run of whitespace collapsed to one ASCII space, and no
  whitespace at either end" is \<open>' '.join(s.split())\<close>.
\<close>

function split_ws :: "pystr \<Rightarrow> pystr list" where
  "split_ws s =
     (case dropWhile isspace s of
        [] \<Rightarrow> []
      | c # cs \<Rightarrow> takeWhile (\<lambda>x. \<not> isspace x) (c # cs)
                 # split_ws (dropWhile (\<lambda>x. \<not> isspace x) (c # cs)))"
  by pat_completeness auto
termination
proof (relation "measure length", goal_cases)
  case 1
  show ?case by simp
next
  case (2 s c cs)
  have "length (dropWhile (\<lambda>x. \<not> isspace x) cs) \<le> length cs"
    by (rule length_dropWhile_le)
  moreover have "\<not> isspace c"
    using 2 by (metis hd_dropWhile list.distinct(1) list.sel(1))
  moreover have "length (c # cs) \<le> length s"
    using 2 by (metis length_dropWhile_le)
  ultimately show ?case by auto
qed

declare split_ws.simps [simp del]

fun join_sp :: "pystr list \<Rightarrow> pystr" where
  "join_sp [] = []"
| "join_sp [w] = w"
| "join_sp (w # v # ws) = w @ 32 # join_sp (v # ws)"

text \<open>An item of the parsed object that the loop of \<open>handler_input\<close> rejects: the key
  is empty after trimming, or the value is not a string or is empty after trimming.\<close>

definition bad_item :: "pystr \<times> json \<Rightarrow> bool" where
  "bad_item kv \<longleftrightarrow>
     strip (fst kv) = [] \<or> (case snd kv of JStr a \<Rightarrow> strip a = [] | _ \<Rightarrow> True)"

text \<open>One candidate encoding of \<open>read_csv_with_encoding\<close>: the decode, then the parse.\<close>

definition attempt :: "library \<Rightarrow> bytes \<Rightarrow> encoding \<Rightarrow> lib_error + label frame" where
  "attempt lib content encoding =
     (case bytes_decode lib encoding content of
        Inl le \<Rightarrow> Inl le
      | Inr text \<Rightarrow> read_csv lib text)"







section \<open>Worked examples\<close>

text \<open>
  The documents of the examples. \<open>quoted\<close> writes a JSON string literal of an ASCII text.
\<close>

definition quoted :: "string \<Rightarrow> pystr" where
  "quoted s = 34 # S s @ [34]"

definition mapping_document :: pystr where
  \<comment> \<open>\<^verbatim>\<open>{"id":"ID","name":"Name"}\<close>\<close>
  "mapping_document =
     S ''{'' @ quoted ''id'' @ S '':'' @ quoted ''ID'' @ S '',''
       @ quoted ''name'' @ S '':'' @ quoted ''Name'' @ S ''}''"

definition padded_document :: pystr where
  \<comment> \<open>\<^verbatim>\<open>{" id ":"ID "}\<close>\<close>
  "padded_document = S ''{'' @ quoted '' id '' @ S '':'' @ quoted ''ID '' @ S ''}''"

definition clashing_document :: pystr where
  \<comment> \<open>\<^verbatim>\<open>{"a":"x"," a":"y"}\<close>\<close>
  "clashing_document =
     S ''{'' @ quoted ''a'' @ S '':'' @ quoted ''x'' @ S '',''
       @ quoted '' a'' @ S '':'' @ quoted ''y'' @ S ''}''"

definition nbsp_document :: pystr where
  \<comment> \<open>\<^verbatim>\<open>{"k":"a  b"}\<close> with two no-break spaces (U+00A0) between \<open>a\<close> and \<open>b\<close>\<close>
  "nbsp_document =
     S ''{'' @ quoted ''k'' @ S '':'' @ [34] @ S ''a'' @ [160, 160] @ S ''b'' @ [34] @ S ''}''"

definition collapsed_document :: pystr where
  \<comment> \<open>\<^verbatim>\<open>{"k":"a b"}\<close>\<close>
  "collapsed_document = S ''{'' @ quoted ''k'' @ S '':'' @ quoted ''a b'' @ S ''}''"

definition a_csv :: bytes where
  \<comment> \<open>the file \<open>a.csv\<close>: \<^verbatim>\<open>id,name\n1,Alice\n2,\<close>\<close>
  "a_csv = ''id,name'' @ [CHR 0x0A] @ ''1,Alice'' @ [CHR 0x0A] @ ''2,''"

definition a_csv_frame :: "label frame" where
  "a_csv_frame =
     \<lparr>index_len = 2,
      columns = [(StrLabel (S ''id''), [Str (S ''1''), Str (S ''2'')]),
                 (StrLabel (S ''name''), [Str (S ''Alice''), NaN])]\<rparr>"

definition a_csv_records :: "(pystr, cell) pydict list" where
  \<comment> \<open>\<^verbatim>\<open>[{"ID":"1","Name":"Alice"},{"ID":"2","Name":null}]\<close>\<close>
  "a_csv_records =
     [[(S ''ID'', Str (S ''1'')), (S ''Name'', Str (S ''Alice''))],
      [(S ''ID'', Str (S ''2'')), (S ''Name'', PyNone)]]"

definition gbk_csv :: bytes where
  \<comment> \<open>a header \<open>name\<close> and one cell, U+4F60, in GBK: the bytes C4 E3, which are not UTF-8\<close>
  "gbk_csv = ''name'' @ [CHR 0x0A, CHR 0xC4, CHR 0xE3]"

definition gbk_csv_frame :: "label frame" where
  "gbk_csv_frame = \<lparr>index_len = 1, columns = [(StrLabel (S ''name''), [Str [20320]])]\<rparr>"

text \<open>
  A stand-in for the libraries, for the examples only. It answers as the real
  libraries do on the inputs the examples use: \<open>json.loads\<close> on the documents above, on
  \<open>{}\<close> and on \<open>[1]\<close>, with \<open>JSONDecodeError\<close> for everything else; the codecs on ASCII bytes, on
  the GBK pair C4 E3 and on bytes that are valid in neither encoding; \<open>read_csv\<close> on the
  two files above and on the empty text (\<open>EmptyDataError\<close>). The examples lower ASCII
  strings only. For the two choices that depend on the version of pandas it is pandas 2.x.
\<close>

definition example_json_loads :: "pystr \<Rightarrow> lib_error + json" where
  "example_json_loads t =
     (if t = mapping_document
      then Inr (JDict [(S ''id'', JStr (S ''ID'')), (S ''name'', JStr (S ''Name''))])
      else if t = padded_document
      then Inr (JDict [(S '' id '', JStr (S ''ID ''))])
      else if t = clashing_document
      then Inr (JDict [(S ''a'', JStr (S ''x'')), (S '' a'', JStr (S ''y''))])
      else if t = collapsed_document
      then Inr (JDict [(S ''k'', JStr (S ''a b''))])
      else if t = S ''{}'' then Inr (JDict [])
      else if t = S ''[1]'' then Inr (JList [JInt 1])
      else Inl (JSONDecodeError, S ''Expecting value''))"

fun gbk_example :: "bytes \<Rightarrow> pystr option" where
  "gbk_example [] = Some []"
| "gbk_example [c] = (if (of_char c :: nat) < 128 then Some [of_char c] else None)"
| "gbk_example (c # d # ds) =
     (if (of_char c :: nat) < 128 then map_option (\<lambda>r. of_char c # r) (gbk_example (d # ds))
      else if c = CHR 0xC4 \<and> d = CHR 0xE3 then map_option (\<lambda>r. 20320 # r) (gbk_example ds)
      else None)"

definition example_decode :: "encoding \<Rightarrow> bytes \<Rightarrow> lib_error + pystr" where
  "example_decode encoding b =
     (case encoding of
        UTF_8 \<Rightarrow>
          if list_all (\<lambda>c. (of_char c :: nat) < 128) b then Inr (map of_char b)
          else Inl (UnicodeDecodeError, S ''invalid start byte'')
      | GBK \<Rightarrow>
          (case gbk_example b of
             Some t \<Rightarrow> Inr t
           | None \<Rightarrow> Inl (UnicodeDecodeError, S ''illegal multibyte sequence'')))"

definition example_read_csv :: "pystr \<Rightarrow> lib_error + label frame" where
  "example_read_csv t =
     (if t = map of_char a_csv then Inr a_csv_frame
      else if t = S ''name'' @ [10, 20320] then Inr gbk_csv_frame
      else if t = [] then Inl (OtherException (S ''EmptyDataError''), S ''No columns to parse from file'')
      else Inl (OtherException (S ''NotImplementedError''), S ''not one of the examples''))"

definition example_library :: library where
  "example_library =
     \<lparr>json_loads = example_json_loads, bytes_decode = example_decode,
      read_csv = example_read_csv, lower_beyond_ascii = (\<lambda>s. s),
      none_written = PyNone, records_of_no_columns = (\<lambda>n. [])\<rparr>"

section \<open>Properties\<close>

subsection \<open>Literals\<close>

lemma S_csv: "S ''.csv'' = [46, 99, 115, 118]"
  by (simp add: S_def)

lemma S_xlsx: "S ''.xlsx'' = [46, 120, 108, 115, 120]"
  by (simp add: S_def)

lemma S_xls: "S ''.xls'' = [46, 120, 108, 115]"
  by (simp add: S_def)

lemma S_txt: "S ''.txt'' = [46, 116, 120, 116]"
  by (simp add: S_def)

subsection \<open>Whitespace\<close>

lemmas example_documents =
  mapping_document_def padded_document_def clashing_document_def collapsed_document_def
  nbsp_document_def quoted_def S_def

lemmas strip_eval = strip_def lstrip_def rstrip_def isspace_def

lemma split_ws_Nil: "dropWhile isspace s = [] \<Longrightarrow> split_ws s = []"
  by (simp only: split_ws.simps [of s] list.case)

lemma split_ws_Cons:
  "dropWhile isspace s = c # cs \<Longrightarrow>
   split_ws s = takeWhile (\<lambda>x. \<not> isspace x) (c # cs)
                 # split_ws (dropWhile (\<lambda>x. \<not> isspace x) (c # cs))"
  by (simp only: split_ws.simps [of s] list.case)

lemma ws_class_input_eq: "ws_class_input = isspace"
  by (auto simp: ws_class_input_def isspace_def fun_eq_iff)

lemma ws_class_column_eq: "ws_class_column = isspace"
  by (auto simp: ws_class_column_def isspace_def fun_eq_iff)

lemma isspace_32: "isspace 32"
  by (simp add: isspace_def)

lemma re_sub_runs_word:
  "\<forall>x \<in> set w. \<not> cls x \<Longrightarrow> re_sub_runs cls (w @ t) = w @ re_sub_runs cls t"
  by (induction w) auto

lemma re_sub_runs_ws:
  "t \<noteq> [] \<Longrightarrow> cls (hd t) \<Longrightarrow> re_sub_runs cls t = 32 # re_sub_runs cls (dropWhile cls t)"
  by (cases t) auto

lemma rstrip_append:
  "rstrip (a @ b) = (if rstrip b = [] then rstrip a else a @ rstrip b)"
  by (auto simp: rstrip_def dropWhile_append)

lemma rstrip_Cons:
  "rstrip (x # b) = (if rstrip b = [] then (if isspace x then [] else [x]) else x # rstrip b)"
  using rstrip_append [of "[x]" b] by (auto simp: rstrip_def)

lemma rstrip_word: "w \<noteq> [] \<Longrightarrow> \<not> isspace (last w) \<Longrightarrow> rstrip w = w"
  by (cases w rule: rev_cases) (auto simp: rstrip_def)

lemma takeWhile_all: "\<forall>x \<in> set (takeWhile P xs). P x"
  by (induction xs) auto

lemma split_ws_word_nonempty: "w \<in> set (split_ws s) \<Longrightarrow> w \<noteq> [] \<and> (\<forall>x \<in> set w. \<not> isspace x)"
proof (induction s rule: split_ws.induct)
  case (1 s)
  show ?case
  proof (cases "dropWhile isspace s")
    case Nil
    with 1 show ?thesis by (simp only: split_ws_Nil [OF Nil] list.set empty_iff)
  next
    case (Cons c cs)
    have nc: "\<not> isspace c"
      using Cons by (metis hd_dropWhile list.distinct(1) list.sel(1))
    from 1(2) have "w \<in> set (takeWhile (\<lambda>x. \<not> isspace x) (c # cs)
        # split_ws (dropWhile (\<lambda>x. \<not> isspace x) (c # cs)))"
      by (simp only: split_ws_Cons [OF Cons])
    then have "w = takeWhile (\<lambda>x. \<not> isspace x) (c # cs)
        \<or> w \<in> set (split_ws (dropWhile (\<lambda>x. \<not> isspace x) (c # cs)))"
      by (simp only: list.set insert_iff)
    then show ?thesis
    proof (rule disjE)
      assume eq: "w = takeWhile (\<lambda>x. \<not> isspace x) (c # cs)"
      have "w \<noteq> []" unfolding eq using nc by simp
      moreover have "\<forall>x \<in> set w. \<not> isspace x"
        unfolding eq by (rule takeWhile_all)
      ultimately show ?thesis by (rule conjI)
    next
      assume "w \<in> set (split_ws (dropWhile (\<lambda>x. \<not> isspace x) (c # cs)))"
      then show ?thesis by (rule 1(1) [OF Cons])
    qed
  qed
qed

lemma join_sp_Cons: "join_sp (w # ws) = (if ws = [] then w else w @ 32 # join_sp ws)"
  by (cases ws) auto

lemma join_sp_eq_Nil: "(\<forall>w \<in> set ws. w \<noteq> []) \<Longrightarrow> join_sp ws = [] \<longleftrightarrow> ws = []"
  by (cases ws) (auto simp: join_sp_Cons)

lemma rstrip_re_sub_runs:
  "rstrip (re_sub_runs isspace (dropWhile isspace s)) = join_sp (split_ws s)"
proof (induction s rule: split_ws.induct)
  case (1 s)
  show ?case
  proof (cases "dropWhile isspace s")
    case Nil
    then have "split_ws s = []" by (rule split_ws_Nil)
    moreover have "rstrip (re_sub_runs isspace []) = []" by (simp add: rstrip_def)
    ultimately show ?thesis by (simp only: Nil join_sp.simps)
  next
    case (Cons c cs)
    define w where "w = takeWhile (\<lambda>x. \<not> isspace x) (c # cs)"
    define t where "t = dropWhile (\<lambda>x. \<not> isspace x) (c # cs)"
    have nc: "\<not> isspace c"
      using Cons by (metis hd_dropWhile list.distinct(1) list.sel(1))
    have wt: "c # cs = w @ t" by (simp add: w_def t_def)
    have w_ne: "w \<noteq> []" using nc by (simp add: w_def)
    have w_ns: "\<forall>x \<in> set w. \<not> isspace x"
      unfolding w_def by (rule takeWhile_all)
    have split: "split_ws s = w # split_ws t"
      unfolding w_def t_def using Cons by (rule split_ws_Cons)
    have IH: "rstrip (re_sub_runs isspace (dropWhile isspace t)) = join_sp (split_ws t)"
      using 1 [OF Cons] by (simp add: t_def)
    have rw: "rstrip w = w"
      using w_ne w_ns by (intro rstrip_word) auto
    have words: "\<forall>v \<in> set (split_ws t). v \<noteq> []"
      using split_ws_word_nonempty by blast
    show ?thesis
    proof (cases t)
      case Nil
      then have st: "split_ws t = []" by (simp add: split_ws_Nil)
      have "re_sub_runs isspace (w @ []) = w @ re_sub_runs isspace []"
        using w_ns by (rule re_sub_runs_word)
      then have "re_sub_runs isspace (c # cs) = w"
        using wt Nil by simp
      then show ?thesis
        by (simp only: \<open>dropWhile isspace s = c # cs\<close> split st rw join_sp.simps)
    next
      case (Cons d ds)
      have "isspace d"
        using Cons unfolding t_def by (metis hd_dropWhile list.distinct(1) list.sel(1))
      then have "re_sub_runs isspace t = 32 # re_sub_runs isspace (dropWhile isspace t)"
        using Cons by simp
      then have eq: "re_sub_runs isspace (c # cs)
          = w @ 32 # re_sub_runs isspace (dropWhile isspace t)"
        unfolding wt using w_ns by (simp add: re_sub_runs_word)
      define X where "X = re_sub_runs isspace (dropWhile isspace t)"
      have X: "rstrip X = join_sp (split_ws t)"
        using IH by (simp only: X_def)
      have r32: "rstrip (32 # X) = (if rstrip X = [] then [] else 32 # rstrip X)"
        by (simp only: rstrip_Cons isspace_32 if_True)
      have "rstrip (w @ 32 # X) = join_sp (w # split_ws t)"
      proof (cases "split_ws t = []")
        case True
        then have "rstrip X = []" using X by simp
        then have "rstrip (32 # X) = []" using r32 by simp
        then have "rstrip (w @ 32 # X) = rstrip w"
          by (simp add: rstrip_append)
        then show ?thesis using True rw by simp
      next
        case False
        then have ne: "rstrip X \<noteq> []"
          using X words join_sp_eq_Nil [of "split_ws t"] by simp
        then have "rstrip (32 # X) = 32 # rstrip X" using r32 by simp
        then have "rstrip (w @ 32 # X) = w @ 32 # rstrip X"
          by (simp only: rstrip_append list.distinct if_False)
        then show ?thesis using False X by (simp add: join_sp_Cons)
      qed
      then show ?thesis
        by (simp only: \<open>dropWhile isspace s = c # cs\<close> eq split X_def)
    qed
  qed
qed

lemma lstrip_re_sub_runs:
  "lstrip (re_sub_runs isspace s) = re_sub_runs isspace (dropWhile isspace s)"
proof (cases s)
  case Nil
  then show ?thesis by (simp add: lstrip_def)
next
  case (Cons c cs)
  have start: "\<And>u. u = [] \<or> \<not> isspace (hd u) \<Longrightarrow> lstrip (re_sub_runs isspace u) = re_sub_runs isspace u"
    subgoal for u by (cases u) (auto simp: lstrip_def)
    done
  have d: "dropWhile isspace s = [] \<or> \<not> isspace (hd (dropWhile isspace s))"
    by (metis hd_dropWhile)
  show ?thesis
  proof (cases "isspace c")
    case True
    then have "re_sub_runs isspace s = 32 # re_sub_runs isspace (dropWhile isspace s)"
      using Cons by simp
    then show ?thesis using start [OF d] by (simp add: lstrip_def isspace_32)
  next
    case False
    then show ?thesis using Cons start [of s] by simp
  qed
qed

lemma strip_re_sub_runs: "strip (re_sub_runs isspace s) = join_sp (split_ws s)"
  by (simp add: strip_def lstrip_re_sub_runs rstrip_re_sub_runs)


lemma split_ws_word:
  assumes "w \<noteq> []" and "\<forall>x \<in> set w. \<not> isspace x" and "t = [] \<or> isspace (hd t)"
  shows "split_ws (w @ t) = w # split_ws t"
proof -
  obtain c cs where w: "w = c # cs" using assms(1) by (cases w) auto
  have nc: "\<not> isspace c" using assms(2) w by simp
  have d: "dropWhile isspace (w @ t) = c # (cs @ t)" using nc w by simp
  have tw: "takeWhile (\<lambda>x. \<not> isspace x) (w @ t) = w"
    using assms(2,3) by (cases t) (auto simp: takeWhile_append)
  have dw: "dropWhile (\<lambda>x. \<not> isspace x) (w @ t) = t"
    using assms(2,3) by (cases t) (auto simp: dropWhile_append)
  have "split_ws (w @ t) = takeWhile (\<lambda>x. \<not> isspace x) (c # (cs @ t))
      # split_ws (dropWhile (\<lambda>x. \<not> isspace x) (c # (cs @ t)))"
    using d by (rule split_ws_Cons)
  also have "c # (cs @ t) = w @ t" using w by simp
  finally show ?thesis by (simp only: tw dw)
qed

lemma split_ws_skip: "isspace c \<Longrightarrow> split_ws (c # t) = split_ws t"
  by (simp add: split_ws.simps [of "c # t"] split_ws.simps [of t])

lemma split_ws_join_sp:
  "\<forall>w \<in> set ws. w \<noteq> [] \<and> (\<forall>x \<in> set w. \<not> isspace x) \<Longrightarrow> split_ws (join_sp ws) = ws"
proof (induction ws rule: join_sp.induct)
  case 1
  show ?case by (simp add: split_ws_Nil)
next
  case (2 w)
  then have "split_ws (w @ []) = w # split_ws []"
    by (intro split_ws_word) auto
  then show ?case by (simp add: split_ws_Nil)
next
  case (3 w v ws)
  have "split_ws (w @ 32 # join_sp (v # ws)) = w # split_ws (32 # join_sp (v # ws))"
    using 3(2) by (intro split_ws_word) (auto simp: isspace_32)
  also have "split_ws (32 # join_sp (v # ws)) = split_ws (join_sp (v # ws))"
    by (rule split_ws_skip) (rule isspace_32)
  also have "\<dots> = v # ws" using 3 by simp
  finally show ?case by simp
qed

lemma split_ws_idem: "split_ws (join_sp (split_ws s)) = split_ws s"
  using split_ws_word_nonempty [of _ s] by (intro split_ws_join_sp) blast

lemma strip_eq_Nil_iff: "strip s = [] \<longleftrightarrow> (\<forall>c \<in> set s. isspace c)"
proof (cases "dropWhile isspace s")
  case Nil
  have "strip s = []" by (simp add: strip_def lstrip_def rstrip_def Nil)
  moreover have "\<forall>c \<in> set s. isspace c" using Nil by simp
  ultimately show ?thesis by simp
next
  case (Cons c cs)
  have nc: "\<not> isspace c"
    using Cons by (metis hd_dropWhile list.distinct(1) list.sel(1))
  have "\<not> (\<forall>c \<in> set s. isspace c)"
    using Cons by (metis dropWhile_eq_Nil_conv list.distinct(1))
  moreover have "strip s \<noteq> []"
    using nc by (simp add: strip_def lstrip_def rstrip_def Cons)
  ultimately show ?thesis by simp
qed

lemma split_ws_eq_Nil_iff: "split_ws s = [] \<longleftrightarrow> (\<forall>c \<in> set s. isspace c)"
proof (cases "dropWhile isspace s")
  case Nil
  then show ?thesis by (simp add: split_ws_Nil)
next
  case (Cons c cs)
  then have "\<not> (\<forall>c \<in> set s. isspace c)"
    by (metis dropWhile_eq_Nil_conv list.distinct(1))
  then show ?thesis by (simp add: split_ws_Cons [OF Cons])
qed

lemma join_sp_split_ws_eq_Nil_iff: "join_sp (split_ws s) = [] \<longleftrightarrow> (\<forall>c \<in> set s. isspace c)"
  using join_sp_eq_Nil [of "split_ws s"] split_ws_word_nonempty [of _ s] split_ws_eq_Nil_iff [of s]
  by blast

lemma normalized_input_eq: "normalized_input s = join_sp (split_ws s)"
  by (simp add: normalized_input_def ws_class_input_eq strip_re_sub_runs)

lemma blank_iff: "s = [] \<or> strip s = [] \<longleftrightarrow> (\<forall>c \<in> set s. isspace c)"
  by (auto simp: strip_eq_Nil_iff)

lemma blank_normalized:
  "join_sp (split_ws s) = [] \<or> strip (join_sp (split_ws s)) = []
     \<longleftrightarrow> s = [] \<or> strip s = []"
proof -
  have "(\<forall>c \<in> set (join_sp (split_ws s)). isspace c)
      \<longleftrightarrow> join_sp (split_ws (join_sp (split_ws s))) = []"
    by (simp only: join_sp_split_ws_eq_Nil_iff)
  also have "\<dots> \<longleftrightarrow> join_sp (split_ws s) = []"
    by (simp only: split_ws_idem)
  also have "\<dots> \<longleftrightarrow> (\<forall>c \<in> set s. isspace c)"
    by (rule join_sp_split_ws_eq_Nil_iff)
  finally show ?thesis by (simp only: blank_iff)
qed

lemma handler_input_normalized:
  "handler_input lib (join_sp (split_ws s)) = handler_input lib s"
  unfolding handler_input_def Let_def normalized_input_eq split_ws_idem blank_normalized ..


lemma clean_column_name_example:
  "clean_column_name (StrLabel ([32] @ S ''Name'' @ [32, 160])) = S ''Name''"
  by (simp add: S_def strip_def lstrip_def rstrip_def isspace_def ws_class_column_def)

lemma normalized_nbsp_document: "normalized_input nbsp_document = collapsed_document"
  by (simp add: normalized_input_def nbsp_document_def collapsed_document_def quoted_def S_def
        strip_def lstrip_def rstrip_def isspace_def ws_class_input_def)

lemma strip_nbsp_document: "strip nbsp_document \<noteq> []"
  by (simp add: nbsp_document_def quoted_def S_def strip_def lstrip_def rstrip_def isspace_def)

subsection \<open>The file decoder\<close>

text \<open>
  C2. The claim is that an \<open>.xlsx\<close> or \<open>.xls\<close> input is parsed as a spreadsheet and that
  some well-formed input succeeds. The code does not do that: whatever the bytes are, the
  branch raises \<open>AttributeError\<close> on \<open>pd.read_spreadsheet\<close>, and the \<open>except\<close> clause of
  line 77 turns it into the \<open>RuntimeError\<close> "Failed to parse file: ...". No spreadsheet
  input is ever decoded.
\<close>

theorem spreadsheet_branch_always_fails:
  "lower lib (extension f) \<in> {S ''.xlsx'', S ''.xls''} \<Longrightarrow>
   decode_file lib f =
     Inl (Exn RuntimeError (Failed_to_parse_file
            (Module_has_no_attribute ''pandas'' ''read_spreadsheet'')))"
  by (auto simp: decode_file_def pd_read_spreadsheet_def Let_def S_csv S_xlsx S_xls)

theorem spreadsheet_branch_always_fails_witness:
  "lower example_library (extension \<lparr>extension = S ''.XLSX'', blob = []\<rparr>)
     \<in> {S ''.xlsx'', S ''.xls''}
   \<and> decode_file example_library \<lparr>extension = S ''.XLSX'', blob = []\<rparr> =
       Inl (Exn RuntimeError (Failed_to_parse_file
              (Module_has_no_attribute ''pandas'' ''read_spreadsheet'')))"
  using spreadsheet_branch_always_fails [of example_library "\<lparr>extension = S ''.XLSX'', blob = []\<rparr>"]
  by (simp add: lower_def ascii_lower_def S_def)

text \<open>
  C4. The claim is that an extension outside \<open>.csv\<close>, \<open>.xlsx\<close>, \<open>.xls\<close> fails with the
  \<open>ValueError\<close> "Unsupported file format" itself and not with a wrapped parse failure.
  The \<open>raise\<close> of line 76 stands inside the \<open>try\<close> block whose \<open>except Exception\<close> catches
  it, so what leaves the function is a \<open>RuntimeError\<close> "Failed to parse file: Unsupported
  file format: ...": the message still names the extension, the class is the wrapper's.
  Shown at the extension \<open>.txt\<close>.
\<close>

theorem txt_extension_is_wrapped:
  "decode_file lib \<lparr>extension = S ''.txt'', blob = content\<rparr> =
     Inl (Exn RuntimeError (Failed_to_parse_file (Unsupported_file_format (S ''.txt''))))
   \<and> exn_class (Exn RuntimeError (Failed_to_parse_file (Unsupported_file_format (S ''.txt''))))
       \<noteq> ValueError"
  by (simp add: decode_file_def Let_def lower_def ascii_lower_def S_csv S_xlsx S_xls S_txt)

lemma csv_loop_two:
  "read_csv_with_encoding lib content default_encodings =
     (case attempt lib content UTF_8 of
        Inr df \<Rightarrow> Inr df
      | Inl le \<Rightarrow>
          if \<not> caught_by_fallback (raised le) then Inl (raised le)
          else (case attempt lib content GBK of
                  Inr df \<Rightarrow> Inr df
                | Inl le' \<Rightarrow>
                    if \<not> caught_by_fallback (raised le') then Inl (raised le')
                    else Inl (Exn RuntimeError
                                (Failed_to_decode_CSV_with_encodings [UTF_8, GBK]))))"
  by (simp add: read_csv_with_encoding_def default_encodings_def attempt_def
        split: sum.splits)

lemma caught_by_fallback_raised:
  "caught_by_fallback (raised le) \<longleftrightarrow> fst le = UnicodeDecodeError \<or> fst le = ParserError"
  by (simp add: caught_by_fallback_def raised_def)

text \<open>
  C3, as amended. For a \<open>.csv\<close> input the candidates are UTF-8, then GBK, each a decode
  followed by a parse. A candidate that raises \<open>UnicodeDecodeError\<close> or \<open>ParserError\<close> is
  given up and the next one tried, so a file that UTF-8 cannot decode and GBK can read is
  read by GBK. A candidate that raises anything else ends the loop: that exception is
  what the function raises, and no later candidate is tried. The function raises the
  \<open>RuntimeError\<close> "Failed to decode CSV with encodings: ('utf-8', 'gbk')" if and only if
  both candidates raise \<open>UnicodeDecodeError\<close> or \<open>ParserError\<close>. The file decoder passes the
  frame on and wraps whatever was raised, message included, in "Failed to parse file:
  ...".
\<close>

theorem read_csv_with_encoding_fallback:
  "(attempt lib content UTF_8 = Inr df
      \<longrightarrow> read_csv_with_encoding lib content default_encodings = Inr df)
   \<and> (attempt lib content UTF_8 = Inl le
        \<and> (fst le = UnicodeDecodeError \<or> fst le = ParserError)
        \<and> attempt lib content GBK = Inr df
      \<longrightarrow> read_csv_with_encoding lib content default_encodings = Inr df)
   \<and> (attempt lib content UTF_8 = Inl le
        \<and> fst le \<noteq> UnicodeDecodeError \<and> fst le \<noteq> ParserError
      \<longrightarrow> read_csv_with_encoding lib content default_encodings
          = Inl (Exn (fst le) (Text (snd le))))
   \<and> (attempt lib content UTF_8 = Inl le
        \<and> (fst le = UnicodeDecodeError \<or> fst le = ParserError)
        \<and> attempt lib content GBK = Inl le'
        \<and> fst le' \<noteq> UnicodeDecodeError \<and> fst le' \<noteq> ParserError
      \<longrightarrow> read_csv_with_encoding lib content default_encodings
          = Inl (Exn (fst le') (Text (snd le'))))
   \<and> (read_csv_with_encoding lib content default_encodings
          = Inl (Exn RuntimeError (Failed_to_decode_CSV_with_encodings [UTF_8, GBK]))
        \<longleftrightarrow> (\<forall>encoding \<in> set [UTF_8, GBK].
               \<exists>e. attempt lib content encoding = Inl e
                 \<and> (fst e = UnicodeDecodeError \<or> fst e = ParserError)))
   \<and> (lower lib (extension f) = S ''.csv''
      \<longrightarrow> decode_file lib f
          = (case read_csv_with_encoding lib (blob f) default_encodings of
               Inl e \<Rightarrow> Inl (Exn RuntimeError (Failed_to_parse_file (exn_msg e)))
             | Inr df \<Rightarrow> Inr df))"
proof (intro conjI)
  show "attempt lib content UTF_8 = Inr df
      \<longrightarrow> read_csv_with_encoding lib content default_encodings = Inr df"
    by (simp add: csv_loop_two)
  show "attempt lib content UTF_8 = Inl le
        \<and> (fst le = UnicodeDecodeError \<or> fst le = ParserError)
        \<and> attempt lib content GBK = Inr df
      \<longrightarrow> read_csv_with_encoding lib content default_encodings = Inr df"
    by (auto simp: csv_loop_two caught_by_fallback_raised)
  show "attempt lib content UTF_8 = Inl le
        \<and> fst le \<noteq> UnicodeDecodeError \<and> fst le \<noteq> ParserError
      \<longrightarrow> read_csv_with_encoding lib content default_encodings
          = Inl (Exn (fst le) (Text (snd le)))"
    by (auto simp: csv_loop_two caught_by_fallback_def raised_def)
  show "attempt lib content UTF_8 = Inl le
        \<and> (fst le = UnicodeDecodeError \<or> fst le = ParserError)
        \<and> attempt lib content GBK = Inl le'
        \<and> fst le' \<noteq> UnicodeDecodeError \<and> fst le' \<noteq> ParserError
      \<longrightarrow> read_csv_with_encoding lib content default_encodings
          = Inl (Exn (fst le') (Text (snd le')))"
    by (auto simp: csv_loop_two caught_by_fallback_def raised_def)
  show "read_csv_with_encoding lib content default_encodings
          = Inl (Exn RuntimeError (Failed_to_decode_CSV_with_encodings [UTF_8, GBK]))
        \<longleftrightarrow> (\<forall>encoding \<in> set [UTF_8, GBK].
               \<exists>e. attempt lib content encoding = Inl e
                 \<and> (fst e = UnicodeDecodeError \<or> fst e = ParserError))"
    by (cases "attempt lib content UTF_8"; cases "attempt lib content GBK")
       (auto simp: csv_loop_two caught_by_fallback_def raised_def)
  show "lower lib (extension f) = S ''.csv''
      \<longrightarrow> decode_file lib f
          = (case read_csv_with_encoding lib (blob f) default_encodings of
               Inl e \<Rightarrow> Inl (Exn RuntimeError (Failed_to_parse_file (exn_msg e)))
             | Inr df \<Rightarrow> Inr df)"
    by (simp add: decode_file_def Let_def)
qed

lemma attempt_gbk_csv:
  "attempt example_library gbk_csv UTF_8 = Inl (UnicodeDecodeError, S ''invalid start byte'')"
  "attempt example_library gbk_csv GBK = Inr gbk_csv_frame"
  by (simp_all add: attempt_def example_library_def example_decode_def example_read_csv_def
        gbk_csv_def a_csv_def S_def)

lemma attempt_FF:
  "attempt example_library [CHR 0xFF] UTF_8 = Inl (UnicodeDecodeError, S ''invalid start byte'')"
  "attempt example_library [CHR 0xFF] GBK
     = Inl (UnicodeDecodeError, S ''illegal multibyte sequence'')"
  by (simp_all add: attempt_def example_library_def example_decode_def)

lemma attempt_empty_file:
  "attempt example_library [] UTF_8
     = Inl (OtherException (S ''EmptyDataError''), S ''No columns to parse from file'')"
  "attempt example_library [] GBK
     = Inl (OtherException (S ''EmptyDataError''), S ''No columns to parse from file'')"
  by (simp_all add: attempt_def example_library_def example_decode_def example_read_csv_def
        a_csv_def)

theorem read_csv_with_encoding_fallback_witness:
  "read_csv_with_encoding example_library gbk_csv default_encodings = Inr gbk_csv_frame
   \<and> read_csv_with_encoding example_library [CHR 0xFF] default_encodings
       = Inl (Exn RuntimeError (Failed_to_decode_CSV_with_encodings [UTF_8, GBK]))
   \<and> read_csv_with_encoding example_library [] default_encodings
       = Inl (Exn (OtherException (S ''EmptyDataError''))
                (Text (S ''No columns to parse from file'')))
   \<and> decode_file example_library \<lparr>extension = S ''.CSV'', blob = gbk_csv\<rparr> = Inr gbk_csv_frame"
proof -
  have 1: "read_csv_with_encoding example_library gbk_csv default_encodings = Inr gbk_csv_frame"
    using read_csv_with_encoding_fallback
      [of example_library gbk_csv gbk_csv_frame "(UnicodeDecodeError, S ''invalid start byte'')"]
      attempt_gbk_csv
    by simp
  have "\<forall>encoding \<in> set [UTF_8, GBK].
          \<exists>e. attempt example_library [CHR 0xFF] encoding = Inl e
               \<and> (fst e = UnicodeDecodeError \<or> fst e = ParserError)"
    using attempt_FF by simp
  then have 2: "read_csv_with_encoding example_library [CHR 0xFF] default_encodings
       = Inl (Exn RuntimeError (Failed_to_decode_CSV_with_encodings [UTF_8, GBK]))"
    using read_csv_with_encoding_fallback [of example_library "[CHR 0xFF]"] by blast
  have 3: "read_csv_with_encoding example_library [] default_encodings
       = Inl (Exn (OtherException (S ''EmptyDataError''))
                (Text (S ''No columns to parse from file'')))"
    using read_csv_with_encoding_fallback
      [of example_library "[]" _
          "(OtherException (S ''EmptyDataError''), S ''No columns to parse from file'')"]
      attempt_empty_file
    by simp
  have "lower example_library (extension \<lparr>extension = S ''.CSV'', blob = gbk_csv\<rparr>)
      = S ''.csv''"
    by (simp add: lower_def ascii_lower_def S_def)
  then have "decode_file example_library \<lparr>extension = S ''.CSV'', blob = gbk_csv\<rparr>
      = (case read_csv_with_encoding example_library
                (blob \<lparr>extension = S ''.CSV'', blob = gbk_csv\<rparr>) default_encodings of
               Inl e \<Rightarrow> Inl (Exn RuntimeError (Failed_to_parse_file (exn_msg e)))
             | Inr df \<Rightarrow> Inr df)"
    using read_csv_with_encoding_fallback
      [of example_library _ _ _ _ "\<lparr>extension = S ''.CSV'', blob = gbk_csv\<rparr>"]
    by blast
  then have 4: "decode_file example_library \<lparr>extension = S ''.CSV'', blob = gbk_csv\<rparr>
      = Inr gbk_csv_frame"
    using 1 by simp
  show ?thesis using 1 2 3 4 by simp
qed

text \<open>
  The claim as it was stated fails at the empty file. Both candidates fail there: each
  decodes the empty text and \<open>read_csv\<close> raises \<open>EmptyDataError\<close> on it. That class is not
  one the loop gives a candidate up for, so the error of the first candidate leaves the
  function, GBK is not tried, and the decoder's error is "Failed to parse file: No
  columns to parse from file", which names no encoding.
\<close>

theorem read_csv_with_encoding_empty_file:
  "attempt example_library [] UTF_8
     = Inl (OtherException (S ''EmptyDataError''), S ''No columns to parse from file'')
   \<and> attempt example_library [] GBK
     = Inl (OtherException (S ''EmptyDataError''), S ''No columns to parse from file'')
   \<and> read_csv_with_encoding example_library [] default_encodings
     \<noteq> Inl (Exn RuntimeError (Failed_to_decode_CSV_with_encodings [UTF_8, GBK]))
   \<and> decode_file example_library \<lparr>extension = S ''.csv'', blob = []\<rparr>
     = Inl (Exn RuntimeError
              (Failed_to_parse_file (Text (S ''No columns to parse from file''))))"
proof -
  have r: "read_csv_with_encoding example_library [] default_encodings
      = Inl (Exn (OtherException (S ''EmptyDataError''))
               (Text (S ''No columns to parse from file'')))"
    by (simp add: csv_loop_two attempt_empty_file caught_by_fallback_def raised_def)
  have "lower example_library (S ''.csv'') = S ''.csv''"
    by (simp add: lower_def ascii_lower_def S_def)
  then have "decode_file example_library \<lparr>extension = S ''.csv'', blob = []\<rparr>
     = Inl (Exn RuntimeError
              (Failed_to_parse_file (Text (S ''No columns to parse from file''))))"
    by (simp add: decode_file_def Let_def r)
  then show ?thesis using r attempt_empty_file by simp
qed

subsection \<open>The column normalizer\<close>

text \<open>
  C9. \<open>normalize_columns\<close> changes the column names and nothing else: the index, the
  arrays of cells and their order are the ones of the input, and the labels are the old
  labels cleaned one by one, in the same order. The clean form of a string label is
  \<open>' '.join(name.split())\<close>: every run of whitespace collapsed to one ASCII space, none
  at either end. Space, no-break space, ideographic space, carriage return, newline and
  tab all count as whitespace there. (A label that is not a string is rendered and
  stripped, without the collapsing; \<open>read_csv\<close> produces string labels only.)
\<close>

theorem normalize_columns_only_renames:
  "index_len (normalize_columns df) = index_len df
   \<and> map snd (columns (normalize_columns df)) = map snd (columns df)
   \<and> labels (normalize_columns df) = map clean_column_name (labels df)
   \<and> (\<forall>name. clean_column_name (StrLabel name) = join_sp (split_ws name))
   \<and> list_all isspace [32, 160, 12288, 13, 10, 9]"
  by (simp add: normalize_columns_def labels_def ws_class_column_eq strip_re_sub_runs
        isspace_def case_prod_unfold comp_def)

subsection \<open>The mapping parser\<close>

lemma mapping_loop_fails_iff:
  "(\<exists>e. mapping_loop items acc = Inl e) \<longleftrightarrow> (\<exists>kv \<in> set items. bad_item kv)"
proof (induction items arbitrary: acc)
  case Nil
  show ?case by simp
next
  case (Cons kv items)
  obtain k v where kv: "kv = (k, v)" by (cases kv)
  show ?case
    unfolding kv using Cons [of "AList.update (strip k) (strip (case v of JStr a \<Rightarrow> a)) acc"]
    by (cases v) (auto simp: bad_item_def)
qed

lemma update_fresh: "k \<notin> fst ` set d \<Longrightarrow> AList.update k v d = d @ [(k, v)]"
  by (induction d) auto

lemma mapping_loop_appends:
  assumes "\<forall>(k, a) \<in> set pairs. strip k \<noteq> [] \<and> strip a \<noteq> []"
    and "distinct (map fst acc @ map (\<lambda>(k, a). strip k) pairs)"
  shows "mapping_loop (map (\<lambda>(k, a). (k, JStr a)) pairs) acc
         = Inr (acc @ map (\<lambda>(k, a). (strip k, strip a)) pairs)"
  using assms
proof (induction pairs arbitrary: acc)
  case Nil
  show ?case by simp
next
  case (Cons p pairs)
  obtain k a where p: "p = (k, a)" by (cases p)
  have fresh: "strip k \<notin> fst ` set acc"
    using Cons.prems(2) unfolding p by auto
  have d: "distinct (map fst (acc @ [(strip k, strip a)]) @ map (\<lambda>(k, a). strip k) pairs)"
    using Cons.prems(2) unfolding p by auto
  have v: "\<forall>(k, a) \<in> set pairs. strip k \<noteq> [] \<and> strip a \<noteq> []"
    using Cons.prems(1) by simp
  have "mapping_loop (map (\<lambda>(k, a). (k, JStr a)) pairs) (acc @ [(strip k, strip a)])
      = Inr ((acc @ [(strip k, strip a)]) @ map (\<lambda>(k, a). (strip k, strip a)) pairs)"
    using v d by (rule Cons.IH)
  then show ?case
    using Cons.prems(1) unfolding p by (simp add: update_fresh [OF fresh])
qed

text \<open>
  C5. \<open>handler_input\<close> raises a \<open>ValueError\<close> (the spec's \<open>InvalidInputError\<close>) exactly
  when the input is empty or all whitespace, or \<open>json.loads\<close> rejects the normalized
  text, or the parsed value is not an object, or some item has a key that is empty after
  trimming or a value that is not a string or is empty after trimming; and it returns a
  mapping exactly when it does not raise such an error. (The key of a parsed JSON
  object is always a string.)
\<close>

theorem handler_input_fails_iff:
  "((\<exists>m. handler_input lib raw = Inl (Exn ValueError m)) \<longleftrightarrow>
      (\<forall>c \<in> set raw. isspace c)
      \<or> (\<exists>le. json_loads lib (normalized_input raw) = Inl le)
      \<or> (\<exists>v. json_loads lib (normalized_input raw) = Inr v \<and> (\<forall>items. v \<noteq> JDict items))
      \<or> (\<exists>items. json_loads lib (normalized_input raw) = Inr (JDict items)
            \<and> (\<exists>kv \<in> set items. bad_item kv)))
   \<and> ((\<exists>mapping. handler_input lib raw = Inr mapping) \<longleftrightarrow>
        \<not> (\<exists>m. handler_input lib raw = Inl (Exn ValueError m)))"
proof -
  let ?parsed = "json_loads lib (normalized_input raw)"
  have blank: "raw = [] \<or> strip raw = [] \<longleftrightarrow> (\<forall>c \<in> set raw. isspace c)"
    by (rule blank_iff)
  show ?thesis
  proof (cases "\<forall>c \<in> set raw. isspace c")
    case True
    then have "handler_input lib raw = Inl (Exn ValueError Empty_table_fields_input)"
      using blank by (simp add: handler_input_def)
    then show ?thesis using True by simp
  next
    case nb: False
    then have nb': "\<not> (raw = [] \<or> strip raw = [])" using blank by simp
    show ?thesis
    proof (cases ?parsed)
      case (Inl le)
      then have "\<exists>m. handler_input lib raw = Inl (Exn ValueError m)"
        using nb' by (simp add: handler_input_def Let_def)
      then show ?thesis using Inl by auto
    next
      case (Inr v)
      show ?thesis
      proof (cases "\<exists>items. v = JDict items")
        case False
        then have "handler_input lib raw
            = Inl (Exn ValueError (Failed_to_parse_table_fields Input_must_be_a_JSON_object))"
          using nb' Inr by (cases v) (simp_all add: handler_input_def Let_def)
        then show ?thesis using Inr False by auto
      next
        case True
        then obtain items where v: "v = JDict items" by blast
        show ?thesis
        proof (cases "mapping_loop items []")
          case (Inl e)
          then have bad: "\<exists>kv \<in> set items. bad_item kv"
            using mapping_loop_fails_iff [of items "[]"] by blast
          have "handler_input lib raw
              = Inl (Exn ValueError (Failed_to_parse_table_fields (exn_msg e)))"
            using nb' Inr v Inl by (simp add: handler_input_def Let_def)
          then show ?thesis using Inr v bad by auto
        next
          case loop: (Inr r)
          then have good: "\<not> (\<exists>kv \<in> set items. bad_item kv)"
            using mapping_loop_fails_iff [of items "[]"] by auto
          have "handler_input lib raw = Inr r"
            using nb' Inr v loop by (simp add: handler_input_def Let_def)
          then show ?thesis using Inr v good nb by auto
        qed
      qed
    qed
  qed
qed


theorem handler_input_fails_iff_witness:
  "(\<exists>v. json_loads example_library (normalized_input (S ''[1]'')) = Inr v
        \<and> (\<forall>items. v \<noteq> JDict items))
   \<and> (\<exists>m. handler_input example_library (S ''[1]'') = Inl (Exn ValueError m))
   \<and> \<not> (\<exists>mapping. handler_input example_library (S ''[1]'') = Inr mapping)"
proof -
  have "normalized_input (S ''[1]'') = S ''[1]''"
    by (simp add: normalized_input_def S_def strip_eval ws_class_input_def)
  then have "json_loads example_library (normalized_input (S ''[1]'')) = Inr (JList [JInt 1])"
    by (simp add: example_library_def example_json_loads_def example_documents)
  then have c: "\<exists>v. json_loads example_library (normalized_input (S ''[1]'')) = Inr v
        \<and> (\<forall>items. v \<noteq> JDict items)"
    by simp
  then show ?thesis
    using handler_input_fails_iff [of example_library "S ''[1]''"] by blast
qed

text \<open>
  C6, as amended. The claim holds for objects whose keys stay pairwise distinct after
  trimming: if the input is not blank and parses to an object of string items that are
  all non-empty after trimming, \<open>handler_input\<close> returns the items with keys and values
  trimmed, in order, as many as the object has. When two keys trim to the same string the
  later item overwrites the earlier one (the example after the witness), so the
  hypothesis cannot be dropped.
\<close>

theorem handler_input_trims_entries:
  assumes "\<not> (\<forall>c \<in> set raw. isspace c)"
    and "json_loads lib (normalized_input raw) = Inr (JDict (map (\<lambda>(k, a). (k, JStr a)) pairs))"
    and "\<forall>(k, a) \<in> set pairs. strip k \<noteq> [] \<and> strip a \<noteq> []"
    and "distinct (map (\<lambda>(k, a). strip k) pairs)"
  shows "handler_input lib raw = Inr (map (\<lambda>(k, a). (strip k, strip a)) pairs)
         \<and> length (keys (map (\<lambda>(k, a). (strip k, strip a)) pairs)) = length pairs"
proof -
  have nb: "\<not> (raw = [] \<or> strip raw = [])"
    using assms(1) blank_iff by blast
  have "mapping_loop (map (\<lambda>(k, a). (k, JStr a)) pairs) []
      = Inr ([] @ map (\<lambda>(k, a). (strip k, strip a)) pairs)"
    using assms(3,4) by (intro mapping_loop_appends) simp_all
  then show ?thesis
    using nb assms(2) by (simp add: handler_input_def Let_def keys_def)
qed

theorem handler_input_trims_entries_witness:
  "\<not> (\<forall>c \<in> set padded_document. isspace c)
   \<and> json_loads example_library (normalized_input padded_document)
       = Inr (JDict (map (\<lambda>(k, a). (k, JStr a)) [(S '' id '', S ''ID '')]))
   \<and> strip (S '' id '') \<noteq> [] \<and> strip (S ''ID '') \<noteq> []
   \<and> distinct (map (\<lambda>(k, a). strip k) [(S '' id '', S ''ID '')])
   \<and> handler_input example_library padded_document = Inr [(S ''id'', S ''ID'')]"
proof -
  have n: "normalized_input padded_document = padded_document"
    by (simp add: normalized_input_def example_documents strip_eval ws_class_input_def)
  have h1: "\<not> (\<forall>c \<in> set padded_document. isspace c)"
    by (simp add: example_documents isspace_def)
  have h2: "json_loads example_library (normalized_input padded_document)
       = Inr (JDict (map (\<lambda>(k, a). (k, JStr a)) [(S '' id '', S ''ID '')]))"
    unfolding n by (simp add: example_library_def example_json_loads_def example_documents)
  have s: "strip (S '' id '') = S ''id''" "strip (S ''ID '') = S ''ID''"
    by (simp_all add: S_def strip_eval)
  have ne: "S ''id'' \<noteq> []" "S ''ID'' \<noteq> []"
    by (simp_all add: S_def)
  have h3: "\<forall>(k, a) \<in> set [(S '' id '', S ''ID '')]. strip k \<noteq> [] \<and> strip a \<noteq> []"
    using s ne by simp
  have h4: "distinct (map (\<lambda>(k, a). strip k) [(S '' id '', S ''ID '')])"
    by simp
  show ?thesis
    using handler_input_trims_entries [OF h1 h2 h3 h4] h1 h2 h4 s ne by simp
qed

text \<open>
  The object \<^verbatim>\<open>{"a":"x"," a":"y"}\<close> has two items, all keys and values non-empty strings
  after trimming; the mapping returned has the one key \<open>a\<close>, with the value \<open>y\<close>.
\<close>

theorem handler_input_clashing_keys:
  "json_loads example_library (normalized_input clashing_document)
     = Inr (JDict [(S ''a'', JStr (S ''x'')), (S '' a'', JStr (S ''y''))])
   \<and> strip (S ''a'') \<noteq> [] \<and> strip (S ''x'') \<noteq> []
   \<and> strip (S '' a'') \<noteq> [] \<and> strip (S ''y'') \<noteq> []
   \<and> handler_input example_library clashing_document = Inr [(S ''a'', S ''y'')]
   \<and> [(S ''a'', S ''y'')] \<noteq> [(strip (S ''a''), strip (S ''x'')), (strip (S '' a''), strip (S ''y''))]
   \<and> length (keys [(S ''a'', S ''y'')])
       \<noteq> length [(S ''a'', JStr (S ''x'')), (S '' a'', JStr (S ''y''))]"
proof -
  have n: "normalized_input clashing_document = clashing_document"
    by (simp add: normalized_input_def example_documents strip_eval ws_class_input_def)
  have nb: "clashing_document \<noteq> []" "strip clashing_document \<noteq> []"
    by (simp_all add: example_documents strip_eval)
  have p: "json_loads example_library (normalized_input clashing_document)
     = Inr (JDict [(S ''a'', JStr (S ''x'')), (S '' a'', JStr (S ''y''))])"
    unfolding n by (simp add: example_library_def example_json_loads_def example_documents)
  have s: "strip (S ''a'') = S ''a''" "strip (S '' a'') = S ''a''"
      "strip (S ''x'') = S ''x''" "strip (S ''y'') = S ''y''"
    by (simp_all add: S_def strip_eval)
  have ne: "S ''a'' \<noteq> []" "S ''x'' \<noteq> []" "S ''y'' \<noteq> []"
    by (simp_all add: S_def)
  have "handler_input example_library clashing_document = Inr [(S ''a'', S ''y'')]"
    using nb p s ne by (simp add: handler_input_def Let_def)
  then show ?thesis using p s ne by (simp add: keys_def)
qed

lemma mapping_loop_distinct:
  "mapping_loop items acc = Inr r \<Longrightarrow> distinct (map fst acc) \<Longrightarrow> distinct (map fst r)"
proof (induction items arbitrary: acc)
  case Nil
  then show ?case by simp
next
  case (Cons kv items)
  obtain k v where kv: "kv = (k, v)" by (cases kv)
  show ?case
  proof (cases v)
    case (JStr a)
    have "distinct (map fst (AList.update (strip k) (strip a) acc))"
      using Cons.prems(2) by (rule distinct_update)
    moreover have "mapping_loop items (AList.update (strip k) (strip a) acc) = Inr r"
      using Cons.prems(1) unfolding kv JStr by (simp split: if_splits)
    ultimately show ?thesis using Cons.IH by blast
  qed (use Cons.prems(1) kv in \<open>simp_all split: if_splits\<close>)
qed

lemma handler_input_distinct_keys:
  "handler_input lib raw = Inr m \<Longrightarrow> distinct (keys m)"
  by (auto simp: handler_input_def Let_def keys_def
        split: if_splits sum.splits json.splits dest: mapping_loop_distinct)

lemma handler_input_mapping_document:
  "handler_input example_library mapping_document
     = Inr [(S ''id'', S ''ID''), (S ''name'', S ''Name'')]"
proof -
  have n: "normalized_input mapping_document = mapping_document"
    by (simp add: normalized_input_def example_documents strip_eval ws_class_input_def)
  have nb: "mapping_document \<noteq> []" "strip mapping_document \<noteq> []"
    by (simp_all add: example_documents strip_eval)
  have p: "json_loads example_library (normalized_input mapping_document)
     = Inr (JDict [(S ''id'', JStr (S ''ID'')), (S ''name'', JStr (S ''Name''))])"
    unfolding n by (simp add: example_library_def example_json_loads_def)
  have s: "strip (S ''id'') = S ''id''" "strip (S ''ID'') = S ''ID''"
      "strip (S ''name'') = S ''name''" "strip (S ''Name'') = S ''Name''"
    by (simp_all add: S_def strip_eval)
  have ne: "S ''id'' \<noteq> []" "S ''ID'' \<noteq> []" "S ''name'' \<noteq> []" "S ''Name'' \<noteq> []"
      "S ''id'' \<noteq> S ''name''"
    by (simp_all add: S_def)
  show ?thesis
    using nb p s ne by (simp add: handler_input_def Let_def)
qed

lemma mapping_loop_stores:
  assumes "\<forall>(k, a) \<in> set pairs. strip k \<noteq> [] \<and> strip a \<noteq> []"
  shows "mapping_loop (map (\<lambda>(k, a). (k, JStr a)) pairs) acc
         = Inr (foldl (\<lambda>d (k, v). AList.update k v d) acc
                  (map (\<lambda>(k, a). (strip k, strip a)) pairs))"
  using assms
proof (induction pairs arbitrary: acc)
  case Nil
  show ?case by simp
next
  case (Cons p pairs)
  obtain k a where p: "p = (k, a)" by (cases p)
  have "\<forall>(k, a) \<in> set pairs. strip k \<noteq> [] \<and> strip a \<noteq> []"
    using Cons.prems by simp
  then have "mapping_loop (map (\<lambda>(k, a). (k, JStr a)) pairs)
               (AList.update (strip k) (strip a) acc)
      = Inr (foldl (\<lambda>d (k, v). AList.update k v d) (AList.update (strip k) (strip a) acc)
               (map (\<lambda>(k, a). (strip k, strip a)) pairs))"
    by (rule Cons.IH)
  then show ?case using Cons.prems unfolding p by simp
qed

lemma good_items_are_string_pairs:
  assumes "\<forall>kv \<in> set items. \<not> bad_item kv"
  shows "\<exists>pairs. items = map (\<lambda>(k, a). (k, JStr a)) pairs
           \<and> (\<forall>(k, a) \<in> set pairs. strip k \<noteq> [] \<and> strip a \<noteq> [])"
  using assms
proof (induction items)
  case Nil
  show ?case by simp
next
  case (Cons kv items)
  obtain pairs where ps: "items = map (\<lambda>(k, a). (k, JStr a)) pairs"
      "\<forall>(k, a) \<in> set pairs. strip k \<noteq> [] \<and> strip a \<noteq> []"
    using Cons by auto
  obtain k v where kv: "kv = (k, v)" by (cases kv)
  have "\<not> bad_item (k, v)" using Cons.prems kv by simp
  then obtain a where a: "v = JStr a" "strip k \<noteq> []" "strip a \<noteq> []"
    by (cases v) (auto simp: bad_item_def)
  have "kv # items = map (\<lambda>(k, a). (k, JStr a)) ((k, a) # pairs)"
    using ps(1) kv a(1) by simp
  moreover have "\<forall>(k, a) \<in> set ((k, a) # pairs). strip k \<noteq> [] \<and> strip a \<noteq> []"
    using ps(2) a by simp
  ultimately show ?case by (intro exI [of _ "(k, a) # pairs"] conjI)
qed

lemma handler_input_returns_iff:
  "handler_input lib raw = Inr m \<longleftrightarrow>
     \<not> (\<forall>c \<in> set raw. isspace c)
     \<and> (\<exists>pairs. json_loads lib (normalized_input raw)
                    = Inr (JDict (map (\<lambda>(k, a). (k, JStr a)) pairs))
            \<and> (\<forall>(k, a) \<in> set pairs. strip k \<noteq> [] \<and> strip a \<noteq> [])
            \<and> m = dict_of (map (\<lambda>(k, a). (strip k, strip a)) pairs))"
  (is "?L \<longleftrightarrow> ?R")
proof
  assume L: ?L
  have nb: "\<not> (\<forall>c \<in> set raw. isspace c)"
    using L blank_iff [of raw] by (auto simp: handler_input_def Let_def)
  then have nb': "\<not> (raw = [] \<or> strip raw = [])" using blank_iff by blast
  obtain items where parsed: "json_loads lib (normalized_input raw) = Inr (JDict items)"
    and loop: "mapping_loop items [] = Inr m"
    using L nb' by (auto simp: handler_input_def Let_def split: sum.splits json.splits if_splits)
  have "\<not> (\<exists>kv \<in> set items. bad_item kv)"
    using loop mapping_loop_fails_iff [of items "[]"] by auto
  then obtain pairs where ps: "items = map (\<lambda>(k, a). (k, JStr a)) pairs"
      "\<forall>(k, a) \<in> set pairs. strip k \<noteq> [] \<and> strip a \<noteq> []"
    using good_items_are_string_pairs [of items] by auto
  have "m = dict_of (map (\<lambda>(k, a). (strip k, strip a)) pairs)"
    using loop mapping_loop_stores [OF ps(2), of "[]"] unfolding ps(1) dict_of_def by simp
  then show ?R using nb parsed ps by blast
next
  assume R: ?R
  then obtain pairs where nb: "\<not> (\<forall>c \<in> set raw. isspace c)"
    and parsed: "json_loads lib (normalized_input raw)
                    = Inr (JDict (map (\<lambda>(k, a). (k, JStr a)) pairs))"
    and good: "\<forall>(k, a) \<in> set pairs. strip k \<noteq> [] \<and> strip a \<noteq> []"
    and m: "m = dict_of (map (\<lambda>(k, a). (strip k, strip a)) pairs)"
    by blast
  have nb': "\<not> (raw = [] \<or> strip raw = [])" using nb blank_iff by blast
  show ?L
    using nb' parsed mapping_loop_stores [OF good, of "[]"]
    by (simp add: handler_input_def Let_def m dict_of_def)
qed

text \<open>
  C10. \<open>handler_input\<close> hands \<open>json.loads\<close> the normalized text, which is the raw input
  with every run of whitespace (no-break space included) collapsed to one ASCII space
  and the ends stripped, and what it returns is built from the parse of that text and
  from nothing else: it returns a mapping \<open>m\<close> exactly when the input is not blank and the
  collapsed text parses to an object of string items, all non-empty after trimming, and
  then \<open>m\<close> is the dictionary of those items with keys and values trimmed. So a run
  inside a string literal of the raw input reaches the keys and values as the one space
  the parser reads. For the input \<^verbatim>\<open>{"k":"a  b"}\<close> with two no-break spaces between \<open>a\<close>
  and \<open>b\<close>, a parser that reads \<^verbatim>\<open>{"k":"a b"}\<close> as JSON does gives the value \<open>a b\<close>.
\<close>

theorem handler_input_parses_collapsed_text:
  "normalized_input raw = join_sp (split_ws raw)
   \<and> handler_input lib raw = handler_input lib (join_sp (split_ws raw))
   \<and> (handler_input lib raw = Inr m \<longleftrightarrow>
        \<not> (\<forall>c \<in> set raw. isspace c)
        \<and> (\<exists>pairs. json_loads lib (join_sp (split_ws raw))
                       = Inr (JDict (map (\<lambda>(k, a). (k, JStr a)) pairs))
               \<and> (\<forall>(k, a) \<in> set pairs. strip k \<noteq> [] \<and> strip a \<noteq> [])
               \<and> m = dict_of (map (\<lambda>(k, a). (strip k, strip a)) pairs)))
   \<and> (json_loads lib collapsed_document = Inr (JDict [(S ''k'', JStr (S ''a b''))])
        \<longrightarrow> handler_input lib nbsp_document = Inr [(S ''k'', S ''a b'')])"
proof (intro conjI impI)
  show "normalized_input raw = join_sp (split_ws raw)"
    by (rule normalized_input_eq)
  show "handler_input lib raw = handler_input lib (join_sp (split_ws raw))"
    by (rule handler_input_normalized [symmetric])
  show "handler_input lib raw = Inr m \<longleftrightarrow>
        \<not> (\<forall>c \<in> set raw. isspace c)
        \<and> (\<exists>pairs. json_loads lib (join_sp (split_ws raw))
                       = Inr (JDict (map (\<lambda>(k, a). (k, JStr a)) pairs))
               \<and> (\<forall>(k, a) \<in> set pairs. strip k \<noteq> [] \<and> strip a \<noteq> [])
               \<and> m = dict_of (map (\<lambda>(k, a). (strip k, strip a)) pairs))"
    using handler_input_returns_iff [of lib raw m] by (simp only: normalized_input_eq)
  assume "json_loads lib collapsed_document = Inr (JDict [(S ''k'', JStr (S ''a b''))])"
  moreover have "strip (S ''k'') = S ''k''" and "strip (S ''a b'') = S ''a b''"
    by (simp_all add: S_def strip_def lstrip_def rstrip_def isspace_def)
  moreover have "S ''k'' \<noteq> []" and "S ''a b'' \<noteq> []"
    by (simp_all add: S_def)
  moreover have "nbsp_document \<noteq> []"
    using strip_nbsp_document by (auto simp: strip_def lstrip_def rstrip_def)
  ultimately show "handler_input lib nbsp_document = Inr [(S ''k'', S ''a b'')]"
    using strip_nbsp_document
    by (simp add: handler_input_def normalized_nbsp_document)
qed

theorem handler_input_parses_collapsed_text_witness:
  "join_sp (split_ws nbsp_document) = collapsed_document
   \<and> json_loads example_library collapsed_document = Inr (JDict [(S ''k'', JStr (S ''a b''))])
   \<and> handler_input example_library nbsp_document = Inr [(S ''k'', S ''a b'')]"
proof -
  have "json_loads example_library collapsed_document
      = Inr (JDict [(S ''k'', JStr (S ''a b''))])"
    by (simp add: example_library_def example_json_loads_def collapsed_document_def
          mapping_document_def padded_document_def clashing_document_def quoted_def S_def)
  moreover have "join_sp (split_ws nbsp_document) = collapsed_document"
    using handler_input_parses_collapsed_text [of nbsp_document]
    by (simp add: normalized_nbsp_document)
  ultimately show ?thesis
    using handler_input_parses_collapsed_text [of nbsp_document example_library] by blast
qed

subsection \<open>The projector\<close>
























lemma decode_a_csv:
  "decode_file example_library \<lparr>extension = S ''.csv'', blob = a_csv\<rparr> = Inr a_csv_frame"
  by (simp add: decode_file_def Let_def lower_def ascii_lower_def S_def
        read_csv_with_encoding_def default_encodings_def
        example_library_def example_decode_def example_read_csv_def a_csv_def)

lemma normalize_a_csv_frame:
  "normalize_columns a_csv_frame =
     \<lparr>index_len = 2,
      columns = [(S ''id'', [Str (S ''1''), Str (S ''2'')]),
                 (S ''name'', [Str (S ''Alice''), NaN])]\<rparr>"
  by (simp add: normalize_columns_def a_csv_frame_def S_def strip_eval ws_class_column_def)

text \<open>
  C7. When some key of the mapping is not a label of the normalized frame, \<open>project\<close>
  raises the \<open>ValueError\<close> "Missing columns in file: ... Available: ...", whose message
  carries exactly the set of missing keys and the list of all labels of the frame; no
  record is produced. \<open>read_table_file_to_objects\<close> raises the same error once the file
  is decoded.
\<close>

theorem missing_columns_are_reported:
  "(set (keys field_mapping) - set (labels df) \<noteq> {}
      \<longrightarrow> project lib df field_mapping
          = Inl (Exn ValueError
                   (Missing_columns_in_file (set (keys field_mapping) - set (labels df))
                      (labels df))))
   \<and> (decode_file lib f = Inr raw
        \<and> set (keys field_mapping) - set (labels (normalize_columns raw)) \<noteq> {}
      \<longrightarrow> read_table_file_to_objects lib (A_File f) field_mapping
          = Inl (Exn ValueError
                   (Missing_columns_in_file
                      (set (keys field_mapping) - set (labels (normalize_columns raw)))
                      (labels (normalize_columns raw)))))"
  by (simp add: project_def read_table_file_to_objects_def Let_def)

theorem missing_columns_are_reported_witness:
  "decode_file example_library \<lparr>extension = S ''.csv'', blob = a_csv\<rparr> = Inr a_csv_frame
   \<and> set (keys [(S ''id'', S ''ID''), (S ''age'', S ''Age'')])
         - set (labels (normalize_columns a_csv_frame)) \<noteq> {}
   \<and> read_table_file_to_objects example_library
         (A_File \<lparr>extension = S ''.csv'', blob = a_csv\<rparr>)
         [(S ''id'', S ''ID''), (S ''age'', S ''Age'')]
       = Inl (Exn ValueError (Missing_columns_in_file {S ''age''} [S ''id'', S ''name'']))"
proof -
  have m: "set (keys [(S ''id'', S ''ID''), (S ''age'', S ''Age'')])
         - set (labels (normalize_columns a_csv_frame)) = {S ''age''}"
    by (auto simp: normalize_a_csv_frame keys_def labels_def S_def)
  have l: "labels (normalize_columns a_csv_frame) = [S ''id'', S ''name'']"
    by (simp add: normalize_a_csv_frame labels_def)
  have h: "set (keys [(S ''id'', S ''ID''), (S ''age'', S ''Age'')])
         - set (labels (normalize_columns a_csv_frame)) \<noteq> {}"
    unfolding m by simp
  have "read_table_file_to_objects example_library
         (A_File \<lparr>extension = S ''.csv'', blob = a_csv\<rparr>)
         [(S ''id'', S ''ID''), (S ''age'', S ''Age'')]
       = Inl (Exn ValueError
                (Missing_columns_in_file
                   (set (keys [(S ''id'', S ''ID''), (S ''age'', S ''Age'')])
                      - set (labels (normalize_columns a_csv_frame)))
                   (labels (normalize_columns a_csv_frame))))"
    using missing_columns_are_reported
      [where field_mapping = "[(S ''id'', S ''ID''), (S ''age'', S ''Age'')]"
         and lib = example_library
         and f = "\<lparr>extension = S ''.csv'', blob = a_csv\<rparr>" and raw = a_csv_frame]
      decode_a_csv h
    by blast
  then have r: "read_table_file_to_objects example_library
         (A_File \<lparr>extension = S ''.csv'', blob = a_csv\<rparr>)
         [(S ''id'', S ''ID''), (S ''age'', S ''Age'')]
       = Inl (Exn ValueError (Missing_columns_in_file {S ''age''} [S ''id'', S ''name'']))"
    by (simp only: m, simp only: l)
  show ?thesis using decode_a_csv h r by blast
qed





subsection \<open>The invocation\<close>

text \<open>
  C8. The messages of one invocation are either the single text message "Error: ..." of
  the first step that raised (the lookup of \<open>table_fields\<close>, \<open>handler_input\<close>, the lookup of
  \<open>file\<close>, \<open>read_table_file_to_objects\<close>), or, when no step raised, the JSON message of
  \<open>{"result": records}\<close> followed by its text echo; never anything else.
\<close>

theorem invoke_all_or_nothing:
  "(\<forall>e. lookup_param tool_parameters ''table_fields'' = Inl e
        \<longrightarrow> invoke lib tool_parameters = [Text_message (Error_text (exn_msg e))])
   \<and> (\<forall>v e. lookup_param tool_parameters ''table_fields'' = Inr v
          \<and> handler_input_arg lib v = Inl e
        \<longrightarrow> invoke lib tool_parameters = [Text_message (Error_text (exn_msg e))])
   \<and> (\<forall>v field_mapping e. lookup_param tool_parameters ''table_fields'' = Inr v
          \<and> handler_input_arg lib v = Inr field_mapping
          \<and> lookup_param tool_parameters ''file'' = Inl e
        \<longrightarrow> invoke lib tool_parameters = [Text_message (Error_text (exn_msg e))])
   \<and> (\<forall>v field_mapping fv e. lookup_param tool_parameters ''table_fields'' = Inr v
          \<and> handler_input_arg lib v = Inr field_mapping
          \<and> lookup_param tool_parameters ''file'' = Inr fv
          \<and> read_table_file_to_objects lib (file_arg_of fv) field_mapping = Inl e
        \<longrightarrow> invoke lib tool_parameters = [Text_message (Error_text (exn_msg e))])
   \<and> (\<forall>v field_mapping fv res. lookup_param tool_parameters ''table_fields'' = Inr v
          \<and> handler_input_arg lib v = Inr field_mapping
          \<and> lookup_param tool_parameters ''file'' = Inr fv
          \<and> read_table_file_to_objects lib (file_arg_of fv) field_mapping = Inr res
        \<longrightarrow> invoke lib tool_parameters
            = [Json_message (Output res), Text_message (Json_dumps (Output res))])
   \<and> ((\<exists>m. invoke lib tool_parameters = [Text_message (Error_text m)])
        \<or> (\<exists>res. invoke lib tool_parameters
              = [Json_message (Output res), Text_message (Json_dumps (Output res))]))"
  by (simp add: invoke_def run_pipeline_def split: sum.splits)

lemma read_table_a_csv:
  "read_table_file_to_objects example_library
     (A_File \<lparr>extension = S ''.csv'', blob = a_csv\<rparr>)
     [(S ''id'', S ''ID''), (S ''name'', S ''Name'')] = Inr a_csv_records"
proof -
  have "S ''id'' \<noteq> S ''name''" "S ''ID'' \<noteq> S ''Name''"
    by (simp_all add: S_def)
  then have "project example_library (normalize_columns a_csv_frame)
        [(S ''id'', S ''ID''), (S ''name'', S ''Name'')]
      = Inr a_csv_records"
    by (simp add: normalize_a_csv_frame project_def Let_def keys_def labels_def
          getitem_list_def rename_columns_def where_notnull_else_None_def notnull_def
          to_dict_records_def zip_star_def dict_of_def a_csv_records_def upt_conv_Cons
          example_library_def)
  then show ?thesis
    by (simp add: read_table_file_to_objects_def decode_a_csv)
qed

theorem invoke_all_or_nothing_witness:
  "lookup_param Map.empty ''table_fields'' = Inl (Exn KeyError (Key_repr ''table_fields''))
   \<and> invoke example_library Map.empty
       = [Text_message (Error_text (Key_repr ''table_fields''))]
   \<and> read_table_file_to_objects example_library
         (file_arg_of (File_param \<lparr>extension = S ''.csv'', blob = a_csv\<rparr>))
         [(S ''id'', S ''ID''), (S ''name'', S ''Name'')] = Inr a_csv_records
   \<and> invoke example_library
         [''table_fields'' \<mapsto> Str_param mapping_document,
          ''file'' \<mapsto> File_param \<lparr>extension = S ''.csv'', blob = a_csv\<rparr>]
       = [Json_message (Output a_csv_records), Text_message (Json_dumps (Output a_csv_records))]"
proof -
  let ?ps = "[''table_fields'' \<mapsto> Str_param mapping_document,
              ''file'' \<mapsto> File_param \<lparr>extension = S ''.csv'', blob = a_csv\<rparr>]"
  have k: "lookup_param Map.empty ''table_fields''
      = Inl (Exn KeyError (Key_repr ''table_fields''))"
    by (simp add: lookup_param_def)
  then have 1: "invoke example_library Map.empty
      = [Text_message (Error_text (exn_msg (Exn KeyError (Key_repr ''table_fields''))))]"
    using invoke_all_or_nothing [of Map.empty example_library] by blast
  have a: "lookup_param ?ps ''table_fields'' = Inr (Str_param mapping_document)"
    by (simp add: lookup_param_def)
  have b: "handler_input_arg example_library (Str_param mapping_document)
      = Inr [(S ''id'', S ''ID''), (S ''name'', S ''Name'')]"
    by (simp add: handler_input_arg_def handler_input_mapping_document)
  have c: "lookup_param ?ps ''file''
      = Inr (File_param \<lparr>extension = S ''.csv'', blob = a_csv\<rparr>)"
    by (simp add: lookup_param_def)
  have d: "read_table_file_to_objects example_library
         (file_arg_of (File_param \<lparr>extension = S ''.csv'', blob = a_csv\<rparr>))
         [(S ''id'', S ''ID''), (S ''name'', S ''Name'')] = Inr a_csv_records"
    by (simp add: file_arg_of_def read_table_a_csv)
  have 2: "invoke example_library ?ps
      = [Json_message (Output a_csv_records), Text_message (Json_dumps (Output a_csv_records))]"
    using invoke_all_or_nothing [of ?ps example_library] a b c d by blast
  show ?thesis using k 1 2 d by simp
qed

end
